theory Spec2Isabelle
  imports Complex_Main
begin

section \<open>JavaScript numbers\<close>

text \<open>
  The particle simulation computes with JavaScript numbers. A number is modelled as a
  real (arithmetic on finite values is exact: rounding and overflow are abstracted) or
  one of the three special values that division by zero and the operations on them
  produce. The sign of zero is not represented; a zero divisor is taken as \<open>+0\<close>, which
  is what \<open>Math.sqrt\<close> of a sum of squares returns.
\<close>

datatype jsnum = Fin real | PInf | NInf | NaN

definition inf_of_sign :: "real \<Rightarrow> jsnum" where
  "inf_of_sign s = (if 0 < s then PInf else if s < 0 then NInf else NaN)"

fun js_neg :: "jsnum \<Rightarrow> jsnum" where
  "js_neg (Fin a) = Fin (- a)"
| "js_neg PInf = NInf"
| "js_neg NInf = PInf"
| "js_neg NaN = NaN"

fun js_add :: "jsnum \<Rightarrow> jsnum \<Rightarrow> jsnum" where
  "js_add (Fin a) (Fin b) = Fin (a + b)"
| "js_add (Fin a) PInf = PInf"
| "js_add (Fin a) NInf = NInf"
| "js_add PInf (Fin b) = PInf"
| "js_add NInf (Fin b) = NInf"
| "js_add PInf PInf = PInf"
| "js_add NInf NInf = NInf"
| "js_add PInf NInf = NaN"
| "js_add NInf PInf = NaN"
| "js_add NaN b = NaN"
| "js_add a NaN = NaN"

definition js_sub :: "jsnum \<Rightarrow> jsnum \<Rightarrow> jsnum" where
  "js_sub a b = js_add a (js_neg b)"

fun js_mul :: "jsnum \<Rightarrow> jsnum \<Rightarrow> jsnum" where
  "js_mul (Fin a) (Fin b) = Fin (a * b)"
| "js_mul (Fin a) PInf = inf_of_sign a"
| "js_mul (Fin a) NInf = inf_of_sign (- a)"
| "js_mul PInf (Fin b) = inf_of_sign b"
| "js_mul NInf (Fin b) = inf_of_sign (- b)"
| "js_mul PInf PInf = PInf"
| "js_mul NInf NInf = PInf"
| "js_mul PInf NInf = NInf"
| "js_mul NInf PInf = NInf"
| "js_mul NaN b = NaN"
| "js_mul a NaN = NaN"

fun js_div :: "jsnum \<Rightarrow> jsnum \<Rightarrow> jsnum" where
  "js_div (Fin a) (Fin b) = (if b = 0 then inf_of_sign a else Fin (a / b))"
| "js_div (Fin a) PInf = Fin 0"
| "js_div (Fin a) NInf = Fin 0"
| "js_div PInf (Fin b) = (if b < 0 then NInf else PInf)"
| "js_div NInf (Fin b) = (if b < 0 then PInf else NInf)"
| "js_div PInf PInf = NaN"
| "js_div NInf NInf = NaN"
| "js_div PInf NInf = NaN"
| "js_div NInf PInf = NaN"
| "js_div NaN b = NaN"
| "js_div a NaN = NaN"

fun js_sqrt :: "jsnum \<Rightarrow> jsnum" where
  "js_sqrt (Fin a) = (if a < 0 then NaN else Fin (sqrt a))"
| "js_sqrt PInf = PInf"
| "js_sqrt NInf = NaN"
| "js_sqrt NaN = NaN"

fun js_sin :: "jsnum \<Rightarrow> jsnum" where
  "js_sin (Fin a) = Fin (sin a)"
| "js_sin PInf = NaN"
| "js_sin NInf = NaN"
| "js_sin NaN = NaN"

text \<open>\<open>a < b\<close>; every comparison with \<open>NaN\<close> is false. \<open>a > b\<close> is \<open>js_lt b a\<close>.\<close>

fun js_lt :: "jsnum \<Rightarrow> jsnum \<Rightarrow> bool" where
  "js_lt (Fin a) (Fin b) = (a < b)"
| "js_lt (Fin a) PInf = True"
| "js_lt NInf (Fin b) = True"
| "js_lt NInf PInf = True"
| "js_lt a b = False"

section \<open>GalaxyParticle\<close>

text \<open>
  The pointer \<open>{ x: null, y: null }\<close> of the controller; \<open>None\<close> is \<open>null\<close>.
\<close>

record pointer =
  x :: "jsnum option"
  y :: "jsnum option"

record particle =
  x :: jsnum
  y :: jsnum
  radius :: jsnum
  baseRadius :: jsnum
  color :: string
  speedX :: jsnum
  speedY :: jsnum
  pulsePhase :: jsnum
  pulseSpeed :: jsnum

text \<open>
  The eight values \<open>Math.random()\<close> returns during one construction, in the order
  the constructor draws them.
\<close>

record draws =
  r_x :: real
  r_y :: real
  r_radius :: real
  r_color :: real
  r_speedX :: real
  r_speedY :: real
  r_pulsePhase :: real
  r_pulseSpeed :: real

definition colors :: "string list" where
  "colors = [''#FFD700'', ''#FFA500'', ''#FF6347'', ''#FF69B4'', ''#00CED1'',
             ''#9370DB'', ''#32CD32'', ''#FF4500'', ''#1E90FF'', ''#FF1493'']"

text \<open>\<open>colors[Math.floor(r * colors.length)]\<close>; an index off the array reads \<open>undefined\<close>.\<close>

definition pick_color :: "real \<Rightarrow> string" where
  "pick_color r =
     (let i = \<lfloor>r * real (length colors)\<rfloor>
      in if 0 \<le> i \<and> i < int (length colors) then colors ! nat i else ''undefined'')"

definition new_GalaxyParticle :: "draws \<Rightarrow> jsnum \<Rightarrow> jsnum \<Rightarrow> particle" where
  "new_GalaxyParticle d canvasWidth canvasHeight =
     (let r = js_add (js_mul (Fin (r_radius d)) (Fin 3)) (Fin 1)
      in \<lparr> particle.x = js_mul (Fin (r_x d)) canvasWidth,
           particle.y = js_mul (Fin (r_y d)) canvasHeight,
           radius = r,
           baseRadius = r,
           color = pick_color (r_color d),
           speedX = js_mul (js_sub (Fin (r_speedX d)) (Fin 0.5)) (Fin 0.5),
           speedY = js_mul (js_sub (Fin (r_speedY d)) (Fin 0.5)) (Fin 0.5),
           pulsePhase = js_mul (js_mul (Fin (r_pulsePhase d)) (Fin pi)) (Fin 2),
           pulseSpeed = js_add (Fin 0.02) (js_mul (Fin (r_pulseSpeed d)) (Fin 0.03)) \<rparr>)"

text \<open>The four parts of \<open>update\<close>, in the order of the method body.\<close>

definition move :: "particle \<Rightarrow> particle" where
  "move p = p\<lparr> particle.x := js_add (particle.x p) (speedX p),
               particle.y := js_add (particle.y p) (speedY p) \<rparr>"

definition bounce :: "jsnum \<Rightarrow> jsnum \<Rightarrow> particle \<Rightarrow> particle" where
  "bounce canvasWidth canvasHeight p =
     (let p1 = (if js_lt (particle.x p) (Fin 0) \<or> js_lt canvasWidth (particle.x p)
                then p\<lparr> speedX := js_mul (speedX p) (Fin (- 1)) \<rparr> else p)
      in if js_lt (particle.y p1) (Fin 0) \<or> js_lt canvasHeight (particle.y p1)
         then p1\<lparr> speedY := js_mul (speedY p1) (Fin (- 1)) \<rparr> else p1)"

definition mouse_interaction :: "pointer \<Rightarrow> particle \<Rightarrow> particle" where
  "mouse_interaction m p =
     (case (pointer.x m, pointer.y m) of
        (Some mx, Some my) \<Rightarrow>
          (let dx = js_sub mx (particle.x p);
               dy = js_sub my (particle.y p);
               distance = js_sqrt (js_add (js_mul dx dx) (js_mul dy dy))
           in if js_lt distance (Fin 200)
              then (let force = js_div (js_sub (Fin 200) distance) (Fin 200)
                    in p\<lparr> particle.x :=
                            js_add (particle.x p) (js_mul (js_mul (js_div dx distance) force) (Fin 2)),
                          particle.y :=
                            js_add (particle.y p) (js_mul (js_mul (js_div dy distance) force) (Fin 2)) \<rparr>)
              else p)
      | _ \<Rightarrow> p)"

definition pulse :: "particle \<Rightarrow> particle" where
  "pulse p =
     (let ph = js_add (pulsePhase p) (pulseSpeed p)
      in p\<lparr> pulsePhase := ph,
            radius := js_add (baseRadius p) (js_mul (js_sin ph) (Fin 1)) \<rparr>)"

definition update :: "pointer \<Rightarrow> jsnum \<Rightarrow> jsnum \<Rightarrow> particle \<Rightarrow> particle" where
  "update m canvasWidth canvasHeight p =
     pulse (mouse_interaction m (bounce canvasWidth canvasHeight (move p)))"

text \<open>A run of updates, each with the pointer and surface dimensions of its frame.\<close>

fun updates :: "(pointer \<times> jsnum \<times> jsnum) list \<Rightarrow> particle \<Rightarrow> particle" where
  "updates [] p = p"
| "updates ((m, w, h) # ins) p = updates ins (update m w h p)"

definition no_pointer :: pointer where
  "no_pointer = \<lparr> pointer.x = None, pointer.y = None \<rparr>"

definition pointer_at :: "real \<Rightarrow> real \<Rightarrow> pointer" where
  "pointer_at a b = \<lparr> pointer.x = Some (Fin a), pointer.y = Some (Fin b) \<rparr>"

section \<open>Drawing\<close>

text \<open>
  The 2-D context is modelled by the sequence of calls and property writes it receives.
  \<open>Rgba\<close> stands for the template string \<open>rgba(r, g, b, a)\<close>.
\<close>

datatype style = Css string | Rgba nat nat nat jsnum | Gradient

datatype canvas_op =
    CreateRadialGradient jsnum jsnum jsnum jsnum jsnum jsnum
  | AddColorStop real string
  | FillStyle style
  | StrokeStyle style
  | LineWidth real
  | BeginPath
  | Arc jsnum jsnum jsnum jsnum jsnum
  | Fill
  | FillRect jsnum jsnum jsnum jsnum
  | MoveTo jsnum jsnum
  | LineTo jsnum jsnum
  | Stroke

definition draw :: "particle \<Rightarrow> canvas_op list" where
  "draw p =
     [ CreateRadialGradient (particle.x p) (particle.y p) (Fin 0)
         (particle.x p) (particle.y p) (js_mul (radius p) (Fin 3)),
       AddColorStop 0 (color p @ ''80''),
       AddColorStop 0.5 (color p @ ''40''),
       AddColorStop 1 (color p @ ''00''),
       FillStyle Gradient,
       BeginPath,
       Arc (particle.x p) (particle.y p) (js_mul (radius p) (Fin 3)) (Fin 0) (js_mul (Fin pi) (Fin 2)),
       Fill,
       FillStyle (Css (color p)),
       BeginPath,
       Arc (particle.x p) (particle.y p) (radius p) (Fin 0) (js_mul (Fin pi) (Fin 2)),
       Fill,
       FillStyle (Css ''#FFFFFF''),
       BeginPath,
       Arc (particle.x p) (particle.y p) (js_mul (radius p) (Fin 0.3)) (Fin 0) (js_mul (Fin pi) (Fin 2)),
       Fill ]"

text \<open>The radius arguments of the circles and gradients in a sequence of calls.\<close>

fun circle_radii :: "canvas_op list \<Rightarrow> jsnum list" where
  "circle_radii [] = []"
| "circle_radii (CreateRadialGradient x0 y0 r0 x1 y1 r1 # ops) = r0 # r1 # circle_radii ops"
| "circle_radii (Arc cx cy r a0 a1 # ops) = r # circle_radii ops"
| "circle_radii (_ # ops) = circle_radii ops"

fun non_negative :: "jsnum \<Rightarrow> bool" where
  "non_negative (Fin a) = (0 \<le> a)"
| "non_negative PInf = True"
| "non_negative a = False"

subsection \<open>Connection lines\<close>

definition distance :: "particle \<Rightarrow> particle \<Rightarrow> jsnum" where
  "distance a b =
     (let dx = js_sub (particle.x a) (particle.x b);
          dy = js_sub (particle.y a) (particle.y b)
      in js_sqrt (js_add (js_mul dx dx) (js_mul dy dy)))"

definition opacity :: "jsnum \<Rightarrow> jsnum" where
  "opacity d = js_mul (js_sub (Fin 1) (js_div d (Fin 150))) (Fin 0.3)"

definition connection :: "particle \<Rightarrow> particle \<Rightarrow> canvas_op list" where
  "connection a b =
     (if js_lt (distance a b) (Fin 150)
      then [ StrokeStyle (Rgba 255 255 255 (opacity (distance a b))),
             LineWidth 0.5,
             BeginPath,
             MoveTo (particle.x a) (particle.y a),
             LineTo (particle.x b) (particle.y b),
             Stroke ]
      else [])"

text \<open>The index pairs the two nested loops visit, in the order they visit them.\<close>

definition pairs :: "nat \<Rightarrow> (nat \<times> nat) list" where
  "pairs n = concat (map (\<lambda>i. map (\<lambda>j. (i, j)) [i + 1 ..< n]) [0 ..< n])"

definition drawConnections :: "particle list \<Rightarrow> canvas_op list" where
  "drawConnections ps =
     concat (map (\<lambda>(i, j). connection (ps ! i) (ps ! j)) (pairs (length ps)))"

section \<open>GalaxyBackground\<close>

datatype error = TypeError

text \<open>
  What the page gives when the controller reads it: the box of the canvas's parent
  element (\<open>offsetWidth\<close>, \<open>offsetHeight\<close>; \<open>None\<close> when there is no parent) and the
  window's inner size.
\<close>

record layout =
  container :: "(nat \<times> nat) option"
  innerWidth :: nat
  innerHeight :: nat

record canvas_el =
  width :: nat
  height :: nat
  context2d :: bool

datatype console_msg = CanvasNotFound string | Initialized nat

datatype target = Window | Canvas

datatype handler = OnResize | OnMouseMove | OnMouseLeave

text \<open>\<open>Listener t name limit h\<close>: \<open>t.addEventListener(name, h)\<close>, through \<open>throttle\<close> when a limit is given.\<close>

datatype listener = Listener target string "nat option" handler

text \<open>
  The fields of the object, followed by what its methods do to the page: the console,
  the listeners added, the number of frames requested and of \<open>Math.random()\<close> calls made.
\<close>

record galaxy =
  canvas :: "canvas_el option"
  ctx :: "canvas_op list option"
  particles :: "particle list"
  numParticles :: nat
  mouse :: pointer
  animationId :: "nat option"
  containerId :: string
  console :: "console_msg list"
  listeners :: "listener list"
  frame_requests :: nat
  random_calls :: nat

definition and_then :: "error + 'a \<Rightarrow> ('a \<Rightarrow> error + 'b) \<Rightarrow> error + 'b" where
  "and_then r f = (case r of Inl e \<Rightarrow> Inl e | Inr v \<Rightarrow> f v)"

definition resizeCanvas :: "layout \<Rightarrow> galaxy \<Rightarrow> error + galaxy" where
  "resizeCanvas lay g =
     (case canvas g of
        None \<Rightarrow> Inl TypeError
      | Some c \<Rightarrow>
          (case container lay of
             Some (w, h) \<Rightarrow> Inr (g\<lparr> canvas := Some (c\<lparr> width := w, height := h \<rparr>) \<rparr>)
           | None \<Rightarrow> Inr (g\<lparr> canvas := Some (c\<lparr> width := innerWidth lay,
                                                height := innerHeight lay \<rparr>) \<rparr>)))"

text \<open>The values of the eight \<open>Math.random()\<close> calls that start at call number \<open>k\<close>.\<close>

definition draws_at :: "(nat \<Rightarrow> real) \<Rightarrow> nat \<Rightarrow> draws" where
  "draws_at rnd k =
     \<lparr> r_x = rnd k, r_y = rnd (k + 1), r_radius = rnd (k + 2), r_color = rnd (k + 3),
       r_speedX = rnd (k + 4), r_speedY = rnd (k + 5), r_pulsePhase = rnd (k + 6),
       r_pulseSpeed = rnd (k + 7) \<rparr>"

definition createParticles :: "(nat \<Rightarrow> real) \<Rightarrow> galaxy \<Rightarrow> error + galaxy" where
  "createParticles rnd g =
     (case canvas g of
        None \<Rightarrow> (if numParticles g = 0 then Inr (g\<lparr> particles := [] \<rparr>) else Inl TypeError)
      | Some c \<Rightarrow>
          Inr (g\<lparr> particles :=
                    map (\<lambda>i. new_GalaxyParticle (draws_at rnd (random_calls g + 8 * i))
                               (Fin (real (width c))) (Fin (real (height c))))
                        [0 ..< numParticles g],
                  random_calls := random_calls g + 8 * numParticles g \<rparr>))"

definition bindEvents :: "galaxy \<Rightarrow> error + galaxy" where
  "bindEvents g =
     (case canvas g of
        None \<Rightarrow> Inl TypeError
      | Some c \<Rightarrow>
          Inr (g\<lparr> listeners := listeners g @
                    [ Listener Window ''resize'' (Some 250) OnResize,
                      Listener Window ''mousemove'' (Some 16) OnMouseMove,
                      Listener Canvas ''mouseleave'' None OnMouseLeave ] \<rparr>))"

definition GalaxyBackground_update :: "galaxy \<Rightarrow> error + galaxy" where
  "GalaxyBackground_update g =
     (case canvas g of
        None \<Rightarrow> (if particles g = [] then Inr g else Inl TypeError)
      | Some c \<Rightarrow>
          Inr (g\<lparr> particles :=
                    map (update (mouse g) (Fin (real (width c))) (Fin (real (height c))))
                        (particles g) \<rparr>))"

definition GalaxyBackground_draw :: "galaxy \<Rightarrow> error + galaxy" where
  "GalaxyBackground_draw g =
     (case ctx g of
        None \<Rightarrow> Inl TypeError
      | Some ops \<Rightarrow>
          (case canvas g of
             None \<Rightarrow> Inl TypeError
           | Some c \<Rightarrow>
               Inr (g\<lparr> ctx := Some (ops
                       @ [ FillStyle (Css ''rgba(0, 0, 0, 0.05)''),
                           FillRect (Fin 0) (Fin 0) (Fin (real (width c))) (Fin (real (height c))) ]
                       @ drawConnections (particles g)
                       @ concat (map draw (particles g))) \<rparr>)))"

text \<open>One run of the frame callback: request the next frame, update, draw.\<close>

definition animate :: "galaxy \<Rightarrow> error + galaxy" where
  "animate g =
     and_then
       (GalaxyBackground_update
          (g\<lparr> animationId := Some (Suc (frame_requests g)),
              frame_requests := Suc (frame_requests g) \<rparr>))
       GalaxyBackground_draw"

definition init :: "layout \<Rightarrow> (nat \<Rightarrow> real) \<Rightarrow> galaxy \<Rightarrow> error + galaxy" where
  "init lay rnd g =
     (case canvas g of
        None \<Rightarrow> Inr (g\<lparr> console := console g @ [CanvasNotFound (containerId g)] \<rparr>)
      | Some c \<Rightarrow>
          and_then (resizeCanvas lay (g\<lparr> ctx := (if context2d c then Some [] else None) \<rparr>))
            (\<lambda>g1. and_then (createParticles rnd g1)
            (\<lambda>g2. and_then (bindEvents g2)
            (\<lambda>g3. and_then (animate g3)
            (\<lambda>g4. Inr (g4\<lparr> console := console g4 @ [Initialized (numParticles g4)] \<rparr>))))))"

text \<open>
  \<open>new GalaxyBackground(containerId)\<close>; \<open>getElementById\<close> is the document's lookup,
  \<open>lay\<close> the layout and \<open>rnd\<close> the sequence of values \<open>Math.random()\<close> returns.
\<close>

definition new_GalaxyBackground ::
  "(string \<Rightarrow> canvas_el option) \<Rightarrow> layout \<Rightarrow> (nat \<Rightarrow> real) \<Rightarrow> string \<Rightarrow> error + galaxy" where
  "new_GalaxyBackground getElementById lay rnd cid =
     init lay rnd
       \<lparr> canvas = getElementById cid,
         ctx = None,
         particles = [],
         numParticles = 200,
         mouse = no_pointer,
         animationId = None,
         containerId = cid,
         console = [],
         listeners = [],
         frame_requests = 0,
         random_calls = 0 \<rparr>"

subsection \<open>Event handlers\<close>

definition resize_handler :: "(nat \<Rightarrow> real) \<Rightarrow> layout \<Rightarrow> galaxy \<Rightarrow> error + galaxy" where
  "resize_handler rnd lay g = and_then (resizeCanvas lay g) (createParticles rnd)"

text \<open>
  A \<open>mousemove\<close> event, with the corner of the canvas's bounding rectangle at the time
  the handler reads it.
\<close>

record mouse_event =
  clientX :: real
  clientY :: real
  rect_left :: real
  rect_top :: real

definition mousemove_handler :: "mouse_event \<Rightarrow> galaxy \<Rightarrow> error + galaxy" where
  "mousemove_handler e g =
     (case canvas g of
        None \<Rightarrow> Inl TypeError
      | Some c \<Rightarrow>
          Inr (g\<lparr> mouse := \<lparr> pointer.x = Some (js_sub (Fin (clientX e)) (Fin (rect_left e))),
                              pointer.y = Some (js_sub (Fin (clientY e)) (Fin (rect_top e))) \<rparr> \<rparr>))"

definition mouseleave_handler :: "galaxy \<Rightarrow> galaxy" where
  "mouseleave_handler g = g\<lparr> mouse := no_pointer \<rparr>"

section \<open>throttle\<close>

text \<open>
  The closure \<open>throttle(func, limit)\<close> returns holds \<open>inThrottle\<close>; \<open>timeouts\<close> are the
  delays of its \<open>setTimeout\<close> callbacks that have not run yet, and \<open>subject\<close> is the
  state \<open>func\<close> works on. The closure is driven by two events: it is invoked with
  arguments, or the host runs its oldest pending timeout callback.
\<close>

record 's throttled =
  inThrottle :: bool
  timeouts :: "nat list"
  subject :: 's

datatype 'a call = Invoke 'a | Timeout

fun throttle ::
  "('a \<Rightarrow> 's \<Rightarrow> error + 's) \<Rightarrow> nat \<Rightarrow> 'a call \<Rightarrow> 's throttled \<Rightarrow> error + 's throttled" where
  "throttle func limit (Invoke args) t =
     (if \<not> inThrottle t
      then (case func args (subject t) of
              Inl e \<Rightarrow> Inl e
            | Inr s \<Rightarrow> Inr (t\<lparr> subject := s, inThrottle := True,
                               timeouts := timeouts t @ [limit] \<rparr>))
      else Inr t)"
| "throttle func limit Timeout t =
     (case timeouts t of
        [] \<Rightarrow> Inr t
      | d # ds \<Rightarrow> Inr (t\<lparr> inThrottle := False, timeouts := ds \<rparr>))"

fun run :: "('e \<Rightarrow> 't \<Rightarrow> error + 't) \<Rightarrow> 'e list \<Rightarrow> 't \<Rightarrow> error + 't" where
  "run step [] t = Inr t"
| "run step (e # es) t = (case step e t of Inl err \<Rightarrow> Inl err | Inr t' \<Rightarrow> run step es t')"

text \<open>The two throttled listeners of \<open>bindEvents\<close>.\<close>

definition on_resize ::
  "(nat \<Rightarrow> real) \<Rightarrow> layout call \<Rightarrow> galaxy throttled \<Rightarrow> error + galaxy throttled" where
  "on_resize rnd = throttle (resize_handler rnd) 250"

definition on_mousemove :: "mouse_event call \<Rightarrow> galaxy throttled \<Rightarrow> error + galaxy throttled" where
  "on_mousemove = throttle mousemove_handler 16"

definition idle :: "'s \<Rightarrow> 's throttled" where
  "idle s = \<lparr> inThrottle = False, timeouts = [], subject = s \<rparr>"

section \<open>Notions used in the statements\<close>

text \<open>The distance from a particle to the pointer, as \<open>update\<close> computes it.\<close>

definition pointer_distance :: "jsnum \<Rightarrow> jsnum \<Rightarrow> particle \<Rightarrow> jsnum" where
  "pointer_distance mx my p =
     (let dx = js_sub mx (particle.x p);
          dy = js_sub my (particle.y p)
      in js_sqrt (js_add (js_mul dx dx) (js_mul dy dy)))"

text \<open>A number that is finite and lies in a closed interval.\<close>

fun in_range :: "real \<Rightarrow> real \<Rightarrow> jsnum \<Rightarrow> bool" where
  "in_range lo hi (Fin a) = (lo \<le> a \<and> a \<le> hi)"
| "in_range lo hi a = False"

text \<open>\<open>Math.abs\<close>.\<close>

fun js_abs :: "jsnum \<Rightarrow> jsnum" where
  "js_abs (Fin a) = Fin \<bar>a\<bar>"
| "js_abs PInf = PInf"
| "js_abs NInf = PInf"
| "js_abs NaN = NaN"

text \<open>
  One axis of a particle that bounces with speed \<open>s\<close> between \<open>0\<close> and \<open>W\<close>: the
  coordinate is inside, or it is at most one step outside and the velocity points back in.
\<close>

definition axis_inv :: "real \<Rightarrow> real \<Rightarrow> real \<Rightarrow> real \<Rightarrow> bool" where
  "axis_inv W s a u =
     (\<bar>u\<bar> = s \<and>
      ((0 \<le> a \<and> a \<le> W) \<or> (- s \<le> a \<and> a < 0 \<and> u = s) \<or> (W < a \<and> a \<le> W + s \<and> u = - s)))"

fun bouncing :: "real \<Rightarrow> real \<Rightarrow> jsnum \<Rightarrow> jsnum \<Rightarrow> bool" where
  "bouncing W s (Fin a) (Fin u) = axis_inv W s a u"
| "bouncing W s a u = False"

subsection \<open>The lines a sequence of context calls strokes\<close>

text \<open>
  The part of the 2-D context that matters for stroking straight lines: the stroke
  style and line width in force, the end of the current subpath and the segments of
  the current path. \<open>moveTo\<close> and \<open>lineTo\<close> do nothing when a coordinate is not finite;
  \<open>lineTo\<close> without a subpath only sets the position; \<open>stroke\<close> strokes the current path
  with the style and width in force at that call. Arcs, gradients and fills are not
  read.
\<close>

fun finite_num :: "jsnum \<Rightarrow> bool" where
  "finite_num (Fin a) = True"
| "finite_num a = False"

record brush =
  strokeStyle :: style
  lineWidth :: real
  position :: "(jsnum \<times> jsnum) option"
  path :: "((jsnum \<times> jsnum) \<times> (jsnum \<times> jsnum)) list"

datatype stroke = StrokedPath style real "((jsnum \<times> jsnum) \<times> (jsnum \<times> jsnum)) list"

fun stroked :: "canvas_op list \<Rightarrow> brush \<Rightarrow> stroke list" where
  "stroked [] b = []"
| "stroked (StrokeStyle s # ops) b = stroked ops (b\<lparr> strokeStyle := s \<rparr>)"
| "stroked (LineWidth w # ops) b = stroked ops (b\<lparr> lineWidth := w \<rparr>)"
| "stroked (BeginPath # ops) b = stroked ops (b\<lparr> position := None, path := [] \<rparr>)"
| "stroked (MoveTo px py # ops) b =
     (if finite_num px \<and> finite_num py
      then stroked ops (b\<lparr> position := Some (px, py) \<rparr>)
      else stroked ops b)"
| "stroked (LineTo px py # ops) b =
     (if finite_num px \<and> finite_num py
      then (case position b of
              None \<Rightarrow> stroked ops (b\<lparr> position := Some (px, py) \<rparr>)
            | Some q \<Rightarrow> stroked ops (b\<lparr> position := Some (px, py),
                                           path := path b @ [(q, (px, py))] \<rparr>))
      else stroked ops b)"
| "stroked (Stroke # ops) b =
     StrokedPath (strokeStyle b) (lineWidth b) (path b) # stroked ops b"
| "stroked (other # ops) b = stroked ops b"

text \<open>The six calls that stroke the line from one particle to another.\<close>

definition line_calls :: "particle \<Rightarrow> particle \<Rightarrow> canvas_op list" where
  "line_calls a b =
     [ StrokeStyle (Rgba 255 255 255 (opacity (distance a b))),
       LineWidth 0.5,
       BeginPath,
       MoveTo (particle.x a) (particle.y a),
       LineTo (particle.x b) (particle.y b),
       Stroke ]"

text \<open>The pairs of indices, in loop order, whose particles are less than 150 apart.\<close>

definition close_pairs :: "particle list \<Rightarrow> (nat \<times> nat) list" where
  "close_pairs ps =
     filter (\<lambda>(i, j). js_lt (distance (ps ! i) (ps ! j)) (Fin 150)) (pairs (length ps))"

subsection \<open>Sample inputs\<close>

definition sample_particle :: particle where
  "sample_particle =
     \<lparr> particle.x = Fin 99.875, particle.y = Fin 49.875, radius = Fin 2, baseRadius = Fin 2,
       color = ''#FFD700'', speedX = Fin 0.125, speedY = Fin 0.125,
       pulsePhase = Fin 0, pulseSpeed = Fin 0.02 \<rparr>"

definition sample_draws :: draws where
  "sample_draws = draws_at (\<lambda>k. 1 / 2) 0"

definition sample_canvas :: canvas_el where
  "sample_canvas = \<lparr> width = 800, height = 600, context2d = True \<rparr>"

definition sample_layout :: layout where
  "sample_layout = \<lparr> container = Some (1024, 768), innerWidth = 1280, innerHeight = 720 \<rparr>"

definition sample_galaxy :: galaxy where
  "sample_galaxy =
     \<lparr> canvas = Some sample_canvas,
       ctx = Some [],
       particles = replicate 200 (new_GalaxyParticle sample_draws (Fin 800) (Fin 600)),
       numParticles = 200,
       mouse = no_pointer,
       animationId = Some 1,
       containerId = ''services-galaxy'',
       console = [Initialized 200],
       listeners = [ Listener Window ''resize'' (Some 250) OnResize,
                     Listener Window ''mousemove'' (Some 16) OnMouseMove,
                     Listener Canvas ''mouseleave'' None OnMouseLeave ],
       frame_requests = 1,
       random_calls = 1600 \<rparr>"

definition first_move :: mouse_event where
  "first_move = \<lparr> clientX = 10, clientY = 10, rect_left = 0, rect_top = 0 \<rparr>"

definition last_move :: mouse_event where
  "last_move = \<lparr> clientX = 20, clientY = 20, rect_left = 0, rect_top = 0 \<rparr>"

section \<open>Arithmetic on finite numbers\<close>

lemma js_sub_fin: "js_sub (Fin a) (Fin b) = Fin (a - b)"
  by (simp add: js_sub_def)

lemma js_mul_neg1: "js_mul s (Fin (- 1)) = js_neg s"
  by (cases s) (simp_all add: inf_of_sign_def)

lemma js_abs_neg: "js_abs (js_neg s) = js_abs s"
  by (cases s) simp_all

lemma in_range_mono: "in_range lo hi a \<Longrightarrow> lo' \<le> lo \<Longrightarrow> hi \<le> hi' \<Longrightarrow> in_range lo' hi' a"
  by (cases a) auto

lemma sum_squares_scaled:
  fixes e f k :: real
  shows "sqrt ((e * k) * (e * k) + (f * k) * (f * k)) = \<bar>k\<bar> * sqrt (e * e + f * f)"
proof -
  have "(e * k) * (e * k) + (f * k) * (f * k) = k\<^sup>2 * (e * e + f * f)"
    by (simp add: power2_eq_square algebra_simps)
  then show ?thesis
    by (simp add: real_sqrt_mult)
qed

section \<open>The parts of update\<close>

lemma update_position:
  "particle.x (update m W H p) = particle.x (mouse_interaction m (bounce W H (move p)))"
  "particle.y (update m W H p) = particle.y (mouse_interaction m (bounce W H (move p)))"
  by (simp_all add: update_def pulse_def Let_def)

lemma bounce_position:
  "particle.x (bounce W H p) = particle.x p" "particle.y (bounce W H p) = particle.y p"
  by (simp_all add: bounce_def Let_def)

lemma move_fin:
  "particle.x p = Fin a \<Longrightarrow> speedX p = Fin u \<Longrightarrow> particle.x (move p) = Fin (a + u)"
  "particle.y p = Fin b \<Longrightarrow> speedY p = Fin v \<Longrightarrow> particle.y (move p) = Fin (b + v)"
  by (simp_all add: move_def)

lemma mouse_interaction_no_pointer: "mouse_interaction no_pointer p = p"
  by (simp add: mouse_interaction_def no_pointer_def)

lemma update_no_pointer_x:
  "particle.x p = Fin a \<Longrightarrow> speedX p = Fin u \<Longrightarrow>
   particle.x (update no_pointer (Fin W) H p) = Fin (a + u)
   \<and> speedX (update no_pointer (Fin W) H p) = Fin (if a + u < 0 \<or> W < a + u then - u else u)"
  by (simp add: update_def pulse_def mouse_interaction_no_pointer bounce_def move_def Let_def)

lemma update_no_pointer_y:
  "particle.y p = Fin b \<Longrightarrow> speedY p = Fin v \<Longrightarrow>
   particle.y (update no_pointer W (Fin H) p) = Fin (b + v)
   \<and> speedY (update no_pointer W (Fin H) p) = Fin (if b + v < 0 \<or> H < b + v then - v else v)"
  by (simp add: update_def pulse_def mouse_interaction_no_pointer bounce_def move_def Let_def)

lemma pointer_distance_fin:
  "particle.x q = Fin a \<Longrightarrow> particle.y q = Fin b \<Longrightarrow>
   pointer_distance (Fin mx) (Fin my) q = Fin (sqrt ((mx - a) * (mx - a) + (my - b) * (my - b)))"
  by (simp add: pointer_distance_def js_sub_fin not_less Let_def)

lemma mouse_interaction_fin:
  assumes px: "particle.x q = Fin a" and py: "particle.y q = Fin b"
    and d: "d = sqrt ((mx - a) * (mx - a) + (my - b) * (my - b))"
    and pos: "0 < d" and near: "d < 200"
  shows "mouse_interaction (pointer_at mx my) q =
           q\<lparr> particle.x := Fin (a + (mx - a) / d * ((200 - d) / 200) * 2),
              particle.y := Fin (b + (my - b) / d * ((200 - d) / 200) * 2) \<rparr>"
proof -
  have nn: "\<not> (mx - a) * (mx - a) + (my - b) * (my - b) < 0"
    by (simp add: not_less)
  show ?thesis
    using pos near nn
    by (simp add: mouse_interaction_def pointer_at_def js_sub_fin px py Let_def d [symmetric])
qed

lemma pulled_distance:
  fixes a b mx my d :: real
  assumes d: "d = sqrt ((mx - a) * (mx - a) + (my - b) * (my - b))" and pos: "0 < d"
  shows "sqrt ((mx - (a + (mx - a) / d * ((200 - d) / 200) * 2)) * (mx - (a + (mx - a) / d * ((200 - d) / 200) * 2))
             + (my - (b + (my - b) / d * ((200 - d) / 200) * 2)) * (my - (b + (my - b) / d * ((200 - d) / 200) * 2)))
         = \<bar>d - (200 - d) / 100\<bar>"
proof -
  define k where "k = 1 - (200 - d) / (100 * d)"
  have ex: "mx - (a + (mx - a) / d * ((200 - d) / 200) * 2) = (mx - a) * k"
    using pos by (simp add: k_def field_simps)
  have ey: "my - (b + (my - b) / d * ((200 - d) / 200) * 2) = (my - b) * k"
    using pos by (simp add: k_def field_simps)
  have "\<bar>k\<bar> * d = \<bar>k * d\<bar>"
    using pos by (simp add: abs_mult)
  also have "k * d = d - (200 - d) / 100"
    using pos by (simp add: k_def field_simps)
  finally have kd: "\<bar>k\<bar> * d = \<bar>d - (200 - d) / 100\<bar>" .
  show ?thesis
    unfolding ex ey sum_squares_scaled d [symmetric] by (rule kd)
qed

lemma closer_iff:
  fixes d :: real
  assumes "0 < d" "d < 200"
  shows "(\<bar>d - (200 - d) / 100\<bar> < d) = (200 / 201 < d)"
  using assms by (auto simp: abs_less_iff field_simps)

section \<open>The pointer term\<close>

text \<open>
  C1. The claim: when the pointer coincides with the particle (distance \<open>0\<close>), the
  pointer term is skipped and the position is neither \<open>NaN\<close> nor changed by it.
  \<open>update\<close> has no such guard. The sample particle moves onto the pointer at
  \<open>(100, 50)\<close>; there \<open>distance\<close> is \<open>0\<close>, which is below \<open>200\<close>, the term divides
  \<open>0\<close> by \<open>0\<close>, and both coordinates come out as \<open>NaN\<close>.
\<close>

theorem coincident_pointer_gives_NaN:
  "pointer_distance (Fin 100) (Fin 50) (move sample_particle) = Fin 0
   \<and> particle.x (update (pointer_at 100 50) (Fin 800) (Fin 600) sample_particle) = NaN
   \<and> particle.y (update (pointer_at 100 50) (Fin 800) (Fin 600) sample_particle) = NaN"
  by (simp add: update_def pulse_def mouse_interaction_def bounce_def move_def
      sample_particle_def pointer_at_def pointer_distance_def js_sub_fin inf_of_sign_def Let_def)

text \<open>
  C2, as claimed: for a pointer at distance \<open>0 < d < 200\<close> the term pushes the particle
  away, so that its distance to the pointer does not shrink. It fails: the sample
  particle is at distance \<open>100\<close> from the pointer \<open>(200, 50)\<close> after its move and at
  distance \<open>99\<close> after the whole update.
\<close>

theorem pointer_term_reduces_distance:
  "pointer_distance (Fin 200) (Fin 50) (move sample_particle) = Fin 100
   \<and> pointer_distance (Fin 200) (Fin 50)
       (update (pointer_at 200 50) (Fin 800) (Fin 600) sample_particle) = Fin 99
   \<and> js_lt (pointer_distance (Fin 200) (Fin 50)
              (update (pointer_at 200 50) (Fin 800) (Fin 600) sample_particle))
            (pointer_distance (Fin 200) (Fin 50) (move sample_particle))"
  by (simp add: update_def pulse_def mouse_interaction_def bounce_def move_def
      sample_particle_def pointer_at_def pointer_distance_def js_sub_fin inf_of_sign_def Let_def)

text \<open>
  C2, amended: for a pointer at distance \<open>0 < d < 200\<close> from the moved particle, the
  term displaces the particle by \<open>force * 2\<close>, with \<open>force = (200 - d) / 200\<close>, along the
  direction TOWARDS the pointer. The distance to the pointer afterwards is
  \<open>\<bar>d - (200 - d) / 100\<bar>\<close>; it is smaller than \<open>d\<close> exactly when \<open>d > 200 / 201\<close>
  (nearer than that, the particle is carried past the pointer).
\<close>

theorem pointer_term_pulls_towards_pointer:
  assumes px: "particle.x p = Fin a" and sx: "speedX p = Fin u"
    and py: "particle.y p = Fin b" and sy: "speedY p = Fin v"
    and d: "d = sqrt ((mx - (a + u)) * (mx - (a + u)) + (my - (b + v)) * (my - (b + v)))"
    and pos: "0 < d" and near: "d < 200"
  shows "pointer_distance (Fin mx) (Fin my) (move p) = Fin d
       \<and> particle.x (update (pointer_at mx my) W H p)
           = Fin (a + u + (mx - (a + u)) / d * ((200 - d) / 200) * 2)
       \<and> particle.y (update (pointer_at mx my) W H p)
           = Fin (b + v + (my - (b + v)) / d * ((200 - d) / 200) * 2)
       \<and> pointer_distance (Fin mx) (Fin my) (update (pointer_at mx my) W H p)
           = Fin \<bar>d - (200 - d) / 100\<bar>
       \<and> (\<bar>d - (200 - d) / 100\<bar> < d) = (200 / 201 < d)"
proof -
  let ?q = "bounce W H (move p)"
  have qx: "particle.x ?q = Fin (a + u)" and qy: "particle.y ?q = Fin (b + v)"
    by (simp_all add: bounce_position move_fin px sx py sy)
  have before: "pointer_distance (Fin mx) (Fin my) (move p) = Fin d"
    by (simp only: pointer_distance_fin [OF move_fin(1) [OF px sx] move_fin(2) [OF py sy]] d)
  note mi = mouse_interaction_fin [OF qx qy d pos near]
  have ux: "particle.x (update (pointer_at mx my) W H p)
           = Fin (a + u + (mx - (a + u)) / d * ((200 - d) / 200) * 2)"
    by (simp add: update_position mi)
  have uy: "particle.y (update (pointer_at mx my) W H p)
           = Fin (b + v + (my - (b + v)) / d * ((200 - d) / 200) * 2)"
    by (simp add: update_position mi)
  have after: "pointer_distance (Fin mx) (Fin my) (update (pointer_at mx my) W H p)
           = Fin \<bar>d - (200 - d) / 100\<bar>"
    unfolding pointer_distance_fin [OF ux uy]
    by (simp only: pulled_distance [OF d pos])
  from before ux uy after closer_iff [OF pos near] show ?thesis by simp
qed

theorem pointer_term_pulls_towards_pointer_witness:
  "particle.x sample_particle = Fin 99.875 \<and> speedX sample_particle = Fin 0.125
   \<and> particle.y sample_particle = Fin 49.875 \<and> speedY sample_particle = Fin 0.125
   \<and> (100::real) = sqrt ((200 - (99.875 + 0.125)) * (200 - (99.875 + 0.125))
                         + (50 - (49.875 + 0.125)) * (50 - (49.875 + 0.125)))
   \<and> (0::real) < 100 \<and> (100::real) < 200
   \<and> pointer_distance (Fin 200) (Fin 50) (move sample_particle) = Fin 100
   \<and> particle.x (update (pointer_at 200 50) (Fin 800) (Fin 600) sample_particle) = Fin 101
   \<and> particle.y (update (pointer_at 200 50) (Fin 800) (Fin 600) sample_particle) = Fin 50
   \<and> pointer_distance (Fin 200) (Fin 50)
       (update (pointer_at 200 50) (Fin 800) (Fin 600) sample_particle) = Fin 99"
proof -
  have h1: "particle.x sample_particle = Fin 99.875" and h2: "speedX sample_particle = Fin 0.125"
    and h3: "particle.y sample_particle = Fin 49.875" and h4: "speedY sample_particle = Fin 0.125"
    by (simp_all add: sample_particle_def)
  have h5: "(100::real) = sqrt ((200 - (99.875 + 0.125)) * (200 - (99.875 + 0.125))
                         + (50 - (49.875 + 0.125)) * (50 - (49.875 + 0.125)))"
    by simp
  have h6: "(0::real) < 100" and h7: "(100::real) < 200" by simp_all
  have "pointer_distance (Fin 200) (Fin 50) (move sample_particle) = Fin 100
   \<and> particle.x (update (pointer_at 200 50) (Fin 800) (Fin 600) sample_particle) = Fin 101
   \<and> particle.y (update (pointer_at 200 50) (Fin 800) (Fin 600) sample_particle) = Fin 50
   \<and> pointer_distance (Fin 200) (Fin 50)
       (update (pointer_at 200 50) (Fin 800) (Fin 600) sample_particle) = Fin 99"
    using pointer_term_pulls_towards_pointer [OF h1 h2 h3 h4 h5 h6 h7, of "Fin 800" "Fin 600"]
    by simp
  then show ?thesis using h1 h2 h3 h4 by simp
qed

section \<open>Motion without a pointer\<close>

text \<open>
  C4. With the pointer null, a particle at \<open>x = surfaceWidth - 0.1\<close> with
  \<open>speedX = 0.5\<close> is at \<open>surfaceWidth + 0.4\<close> after one update, its \<open>speedX\<close> negated
  to \<open>- 0.5\<close> and its position not clamped; the next update brings it back to
  \<open>surfaceWidth - 0.1\<close>, towards the interior. Nothing is asked of \<open>y\<close>, the other
  fields or the height.
\<close>

theorem boundary_overshoot_then_reflect:
  "particle.x (update no_pointer (Fin W) H (p\<lparr> particle.x := Fin (W - 0.1), speedX := Fin 0.5 \<rparr>))
     = Fin (W + 0.4)
   \<and> speedX (update no_pointer (Fin W) H (p\<lparr> particle.x := Fin (W - 0.1), speedX := Fin 0.5 \<rparr>))
     = Fin (- 0.5)
   \<and> particle.x (update no_pointer (Fin W) H
        (update no_pointer (Fin W) H (p\<lparr> particle.x := Fin (W - 0.1), speedX := Fin 0.5 \<rparr>)))
     = Fin (W - 0.1)"
proof -
  let ?p = "p\<lparr> particle.x := Fin (W - 0.1), speedX := Fin 0.5 \<rparr>"
  have 1: "particle.x (update no_pointer (Fin W) H ?p) = Fin (W + 0.4)
    \<and> speedX (update no_pointer (Fin W) H ?p) = Fin (- 0.5)"
    using update_no_pointer_x [of ?p "W - 0.1" "0.5" W H] by simp
  then have "particle.x (update no_pointer (Fin W) H (update no_pointer (Fin W) H ?p)) = Fin (W - 0.1)"
    using update_no_pointer_x [of "update no_pointer (Fin W) H ?p" "W + 0.4" "- 0.5" W H] by simp
  with 1 show ?thesis by simp
qed

subsection \<open>The bouncing invariant\<close>

lemma axis_step:
  assumes "s \<le> W" and "axis_inv W s a u"
  shows "axis_inv W s (a + u) (if a + u < 0 \<or> W < a + u then - u else u)"
  using assms unfolding axis_inv_def by (auto simp: abs_if split: if_splits)

lemma bouncing_update_x:
  assumes "s \<le> W" and "bouncing W s (particle.x p) (speedX p)"
  shows "bouncing W s (particle.x (update no_pointer (Fin W) H p)) (speedX (update no_pointer (Fin W) H p))"
proof -
  from assms(2) obtain a u where f: "particle.x p = Fin a" "speedX p = Fin u" and i: "axis_inv W s a u"
    by (cases "particle.x p"; cases "speedX p") simp_all
  show ?thesis
    using update_no_pointer_x [OF f, of W H] axis_step [OF assms(1) i] by simp
qed

lemma bouncing_update_y:
  assumes "s \<le> H" and "bouncing H s (particle.y p) (speedY p)"
  shows "bouncing H s (particle.y (update no_pointer W (Fin H) p)) (speedY (update no_pointer W (Fin H) p))"
proof -
  from assms(2) obtain a u where f: "particle.y p = Fin a" "speedY p = Fin u" and i: "axis_inv H s a u"
    by (cases "particle.y p"; cases "speedY p") simp_all
  show ?thesis
    using update_no_pointer_y [OF f, of W H] axis_step [OF assms(1) i] by simp
qed

lemma bouncing_steps:
  assumes "sx \<le> W" and "sy \<le> H"
    and "bouncing W sx (particle.x p) (speedX p)" and "bouncing H sy (particle.y p) (speedY p)"
  shows "bouncing W sx (particle.x ((update no_pointer (Fin W) (Fin H) ^^ n) p))
                       (speedX ((update no_pointer (Fin W) (Fin H) ^^ n) p))
       \<and> bouncing H sy (particle.y ((update no_pointer (Fin W) (Fin H) ^^ n) p))
                       (speedY ((update no_pointer (Fin W) (Fin H) ^^ n) p))"
proof (induction n)
  case 0
  show ?case using assms by simp
next
  case (Suc n)
  then show ?case
    using bouncing_update_x [OF assms(1)] bouncing_update_y [OF assms(2)] by simp
qed

lemma bouncing_start:
  "in_range 0 W pos \<Longrightarrow> in_range (- c) c vel \<Longrightarrow> \<exists>s. s \<le> c \<and> bouncing W s pos vel \<and> js_abs vel = Fin s"
  by (cases pos; cases vel) (auto simp: axis_inv_def)

lemma bouncing_end:
  "s \<le> W \<Longrightarrow> bouncing W s pos vel \<Longrightarrow> in_range (- s) (W + s) pos \<and> js_abs vel = Fin s"
  by (cases pos; cases vel) (auto simp: axis_inv_def)

lemma bounded_after_steps:
  assumes "in_range 0 800 (particle.x p)" "in_range 0 600 (particle.y p)"
    "in_range (- 0.25) 0.25 (speedX p)" "in_range (- 0.25) 0.25 (speedY p)"
  shows "in_range (- 1) 801 (particle.x ((update no_pointer (Fin 800) (Fin 600) ^^ n) p))
       \<and> in_range (- 1) 601 (particle.y ((update no_pointer (Fin 800) (Fin 600) ^^ n) p))
       \<and> js_abs (speedX ((update no_pointer (Fin 800) (Fin 600) ^^ n) p)) = js_abs (speedX p)
       \<and> js_abs (speedY ((update no_pointer (Fin 800) (Fin 600) ^^ n) p)) = js_abs (speedY p)"
proof -
  from bouncing_start [OF assms(1) assms(3)] obtain sx
    where sx: "sx \<le> 0.25" "bouncing 800 sx (particle.x p) (speedX p)" "js_abs (speedX p) = Fin sx"
    by blast
  from bouncing_start [OF assms(2) assms(4)] obtain sy
    where sy: "sy \<le> 0.25" "bouncing 600 sy (particle.y p) (speedY p)" "js_abs (speedY p) = Fin sy"
    by blast
  let ?q = "(update no_pointer (Fin 800) (Fin 600) ^^ n) p"
  have b: "bouncing 800 sx (particle.x ?q) (speedX ?q) \<and> bouncing 600 sy (particle.y ?q) (speedY ?q)"
    using bouncing_steps [of sx 800 sy 600 p n] sx sy by simp
  from b sx(1) bouncing_end [of sx 800 "particle.x ?q" "speedX ?q"]
  have ex: "in_range (- sx) (800 + sx) (particle.x ?q)" "js_abs (speedX ?q) = Fin sx" by simp_all
  from b sy(1) bouncing_end [of sy 600 "particle.y ?q" "speedY ?q"]
  have ey: "in_range (- sy) (600 + sy) (particle.y ?q)" "js_abs (speedY ?q) = Fin sy" by simp_all
  have "in_range (- 1) 801 (particle.x ?q)"
    using in_range_mono [OF ex(1), of "- 1" 801] sx(1) by simp
  moreover have "in_range (- 1) 601 (particle.y ?q)"
    using in_range_mono [OF ey(1), of "- 1" 601] sy(1) by simp
  ultimately show ?thesis using ex(2) ey(2) sx(3) sy(3) by simp
qed

text \<open>
  C5. On a surface of \<open>800 \<times> 600\<close>, with the pointer null throughout: for 200
  particles that start in \<open>[0, 800] \<times> [0, 600]\<close> with each speed in \<open>[-0.25, 0.25]\<close>,
  after 60 updates every particle is in \<open>[-1, 801] \<times> [-1, 601]\<close>, and the absolute
  values of its \<open>speedX\<close> and \<open>speedY\<close> are those it started with.
\<close>

theorem sixty_steps_stay_in_bounds:
  assumes "length ps = 200"
    and "list_all (\<lambda>p. in_range 0 800 (particle.x p) \<and> in_range 0 600 (particle.y p)
                     \<and> in_range (- 0.25) 0.25 (speedX p) \<and> in_range (- 0.25) 0.25 (speedY p)) ps"
  shows "list_all2 (\<lambda>p q. in_range (- 1) 801 (particle.x q) \<and> in_range (- 1) 601 (particle.y q)
                     \<and> js_abs (speedX q) = js_abs (speedX p) \<and> js_abs (speedY q) = js_abs (speedY p))
           ps (map (update no_pointer (Fin 800) (Fin 600) ^^ 60) ps)"
  using assms(2) bounded_after_steps [where n = 60]
  by (auto simp add: list_all2_map2 list_all2_same list_all_iff)

theorem sixty_steps_stay_in_bounds_witness:
  "length (replicate 200 sample_particle) = 200
   \<and> list_all (\<lambda>p. in_range 0 800 (particle.x p) \<and> in_range 0 600 (particle.y p)
                  \<and> in_range (- 0.25) 0.25 (speedX p) \<and> in_range (- 0.25) 0.25 (speedY p))
        (replicate 200 sample_particle)
   \<and> list_all2 (\<lambda>p q. in_range (- 1) 801 (particle.x q) \<and> in_range (- 1) 601 (particle.y q)
                  \<and> js_abs (speedX q) = js_abs (speedX p) \<and> js_abs (speedY q) = js_abs (speedY p))
        (replicate 200 sample_particle)
        (map (update no_pointer (Fin 800) (Fin 600) ^^ 60) (replicate 200 sample_particle))"
proof -
  have h1: "length (replicate 200 sample_particle) = 200"
    by simp
  have h2: "list_all (\<lambda>p. in_range 0 800 (particle.x p) \<and> in_range 0 600 (particle.y p)
                  \<and> in_range (- 0.25) 0.25 (speedX p) \<and> in_range (- 0.25) 0.25 (speedY p))
        (replicate 200 sample_particle)"
    by (simp add: list_all_iff sample_particle_def)
  from h1 h2 sixty_steps_stay_in_bounds [OF h1 h2] show ?thesis
    by (intro conjI)
qed

section \<open>What update leaves alone\<close>

text \<open>
  C9. For every pointer state and all surface dimensions, one \<open>update\<close> changes at most
  \<open>x\<close>, \<open>y\<close>, \<open>pulsePhase\<close>, \<open>radius\<close>, \<open>speedX\<close> and \<open>speedY\<close>; \<open>color\<close>, \<open>baseRadius\<close>
  and \<open>pulseSpeed\<close> are unchanged, each speed is kept or negated, and so its absolute
  value is unchanged.
\<close>

theorem update_frame:
  "update m W H p =
      p\<lparr> particle.x := particle.x (update m W H p), particle.y := particle.y (update m W H p),
         radius := radius (update m W H p), pulsePhase := pulsePhase (update m W H p),
         speedX := speedX (update m W H p), speedY := speedY (update m W H p) \<rparr>
   \<and> color (update m W H p) = color p
   \<and> baseRadius (update m W H p) = baseRadius p
   \<and> pulseSpeed (update m W H p) = pulseSpeed p
   \<and> (speedX (update m W H p) = speedX p \<or> speedX (update m W H p) = js_neg (speedX p))
   \<and> (speedY (update m W H p) = speedY p \<or> speedY (update m W H p) = js_neg (speedY p))
   \<and> js_abs (speedX (update m W H p)) = js_abs (speedX p)
   \<and> js_abs (speedY (update m W H p)) = js_abs (speedY p)"
  by (simp add: update_def pulse_def mouse_interaction_def bounce_def move_def js_mul_neg1
       js_abs_neg Let_def split: option.splits)

section \<open>The pulsing radius\<close>

lemma update_pulse_fin:
  assumes "baseRadius p = Fin b" "pulsePhase p = Fin ph" "pulseSpeed p = Fin sp"
  shows "baseRadius (update m w h p) = Fin b \<and> pulsePhase (update m w h p) = Fin (ph + sp)
       \<and> pulseSpeed (update m w h p) = Fin sp \<and> radius (update m w h p) = Fin (b + sin (ph + sp))"
  using assms
  by (simp add: update_def pulse_def mouse_interaction_def bounce_def move_def Let_def
        split: option.splits)

lemma updates_pulse_fin:
  assumes "baseRadius p = Fin b" "pulsePhase p = Fin ph" "pulseSpeed p = Fin sp"
    and "radius p = Fin r" "b - 1 \<le> r" "r \<le> b + 1"
  shows "\<exists>ph' r'. baseRadius (updates ins p) = Fin b \<and> pulsePhase (updates ins p) = Fin ph'
       \<and> pulseSpeed (updates ins p) = Fin sp \<and> radius (updates ins p) = Fin r'
       \<and> b - 1 \<le> r' \<and> r' \<le> b + 1"
  using assms
proof (induction ins arbitrary: p ph r)
  case Nil
  then show ?case by simp
next
  case (Cons i ins)
  obtain m w h where i: "i = (m, w, h)" by (cases i) auto
  note u = update_pulse_fin [OF Cons.prems(1-3), of m w h]
  have lo: "b - 1 \<le> b + sin (ph + sp)" using sin_ge_minus_one [of "ph + sp"] by simp
  have hi: "b + sin (ph + sp) \<le> b + 1" using sin_le_one [of "ph + sp"] by simp
  from Cons.IH [of "update m w h p" "ph + sp" "b + sin (ph + sp)"] u lo hi
  show ?case by (simp add: i)
qed

lemma new_particle_pulse:
  "baseRadius (new_GalaxyParticle d W H) = Fin (r_radius d * 3 + 1)
   \<and> radius (new_GalaxyParticle d W H) = Fin (r_radius d * 3 + 1)
   \<and> pulsePhase (new_GalaxyParticle d W H) = Fin (r_pulsePhase d * pi * 2)
   \<and> pulseSpeed (new_GalaxyParticle d W H) = Fin (0.02 + r_pulseSpeed d * 0.03)"
  by (simp add: new_GalaxyParticle_def Let_def)

lemma draw_radii:
  "radius p = Fin r \<Longrightarrow> 0 \<le> r \<Longrightarrow> list_all non_negative (circle_radii (draw p))"
  by (simp add: draw_def)

text \<open>
  C10. A particle built from a \<open>Math.random()\<close> value in \<open>[0, 1)\<close> has its \<open>baseRadius\<close>
  in \<open>[1, 4)\<close>, and no update changes it. After any run of updates the radius lies in
  \<open>[baseRadius - 1, baseRadius + 1]\<close> and is not negative, and the radii that \<open>draw\<close>
  passes to the canvas (\<open>0.3 * radius\<close>, \<open>radius\<close>, \<open>3 * radius\<close> and the radii of the
  gradient) are not negative; after one more update the radius is
  \<open>baseRadius + sin(pulsePhase)\<close>.
\<close>

theorem radius_never_negative:
  assumes "0 \<le> r_radius d" and "r_radius d < 1"
  shows "\<exists>b ph r. baseRadius (updates ins (new_GalaxyParticle d W H)) = Fin b \<and> 1 \<le> b \<and> b < 4
       \<and> radius (updates ins (new_GalaxyParticle d W H)) = Fin r \<and> b - 1 \<le> r \<and> r \<le> b + 1 \<and> 0 \<le> r
       \<and> list_all non_negative (circle_radii (draw (updates ins (new_GalaxyParticle d W H))))
       \<and> baseRadius (update m w h (updates ins (new_GalaxyParticle d W H))) = Fin b
       \<and> pulsePhase (update m w h (updates ins (new_GalaxyParticle d W H))) = Fin ph
       \<and> radius (update m w h (updates ins (new_GalaxyParticle d W H))) = Fin (b + sin ph)"
proof -
  let ?p = "new_GalaxyParticle d W H"
  let ?b = "r_radius d * 3 + 1"
  note n = new_particle_pulse [of d W H]
  have "\<exists>ph' r'. baseRadius (updates ins ?p) = Fin ?b \<and> pulsePhase (updates ins ?p) = Fin ph'
       \<and> pulseSpeed (updates ins ?p) = Fin (0.02 + r_pulseSpeed d * 0.03) \<and> radius (updates ins ?p) = Fin r'
       \<and> ?b - 1 \<le> r' \<and> r' \<le> ?b + 1"
    by (rule updates_pulse_fin [where r = ?b and ph = "r_pulsePhase d * pi * 2"]) (simp_all add: n)
  then obtain ph' r' where q: "baseRadius (updates ins ?p) = Fin ?b" "pulsePhase (updates ins ?p) = Fin ph'"
      "pulseSpeed (updates ins ?p) = Fin (0.02 + r_pulseSpeed d * 0.03)"
      "radius (updates ins ?p) = Fin r'" "?b - 1 \<le> r'" "r' \<le> ?b + 1"
    by blast
  have b: "1 \<le> ?b" "?b < 4" using assms by simp_all
  have r0: "0 \<le> r'" using q(5) b(1) by simp
  note u = update_pulse_fin [OF q(1-3), of m w h]
  from q b r0 u draw_radii [OF q(4) r0] show ?thesis by blast
qed

theorem radius_never_negative_witness:
  "0 \<le> r_radius sample_draws \<and> r_radius sample_draws < 1
   \<and> (\<exists>b ph r. baseRadius (updates [(no_pointer, Fin 800, Fin 600)] (new_GalaxyParticle sample_draws (Fin 800) (Fin 600))) = Fin b \<and> 1 \<le> b \<and> b < 4
       \<and> radius (updates [(no_pointer, Fin 800, Fin 600)] (new_GalaxyParticle sample_draws (Fin 800) (Fin 600))) = Fin r \<and> b - 1 \<le> r \<and> r \<le> b + 1 \<and> 0 \<le> r
       \<and> list_all non_negative (circle_radii (draw (updates [(no_pointer, Fin 800, Fin 600)] (new_GalaxyParticle sample_draws (Fin 800) (Fin 600)))))
       \<and> baseRadius (update no_pointer (Fin 800) (Fin 600) (updates [(no_pointer, Fin 800, Fin 600)] (new_GalaxyParticle sample_draws (Fin 800) (Fin 600)))) = Fin b
       \<and> pulsePhase (update no_pointer (Fin 800) (Fin 600) (updates [(no_pointer, Fin 800, Fin 600)] (new_GalaxyParticle sample_draws (Fin 800) (Fin 600)))) = Fin ph
       \<and> radius (update no_pointer (Fin 800) (Fin 600) (updates [(no_pointer, Fin 800, Fin 600)] (new_GalaxyParticle sample_draws (Fin 800) (Fin 600)))) = Fin (b + sin ph))"
proof -
  have h1: "0 \<le> r_radius sample_draws" and h2: "r_radius sample_draws < 1"
    by (simp_all add: sample_draws_def draws_at_def)
  from h1 h2 radius_never_negative [OF h1 h2] show ?thesis
    by (intro conjI)
qed

section \<open>Connection lines\<close>

lemma set_pairs: "set (pairs n) = {(i, j). i < j \<and> j < n}"
proof -
  have "(a, b) \<in> set (pairs n) \<longleftrightarrow> a < b \<and> b < n" for a b
    by (auto simp: pairs_def image_iff)
  then show ?thesis by auto
qed

lemma distinct_rows:
  "distinct is \<Longrightarrow> distinct (concat (map (\<lambda>i. map (\<lambda>j. (i, j)) [f i ..< n]) is))"
  by (induction "is") (auto simp: distinct_map inj_on_def)

lemma distinct_pairs: "distinct (pairs n)"
  unfolding pairs_def by (rule distinct_rows) simp

lemma distance_fin:
  "distance (a\<lparr> particle.x := Fin ax, particle.y := Fin ay \<rparr>) (b\<lparr> particle.x := Fin bx, particle.y := Fin bz \<rparr>)
     = Fin (sqrt ((ax - bx) * (ax - bx) + (ay - bz) * (ay - bz)))"
  by (simp add: distance_def js_sub_fin not_less Let_def)

lemma opacity_fin: "opacity (Fin d) = Fin ((1 - d / 150) * 0.3)"
  by (simp add: opacity_def js_sub_fin)

lemma finite_sqrt_lt: "js_lt (js_sqrt s) (Fin c) \<Longrightarrow> finite_num s"
  by (cases s) simp_all

lemma finite_add: "finite_num (js_add p q) \<Longrightarrow> finite_num p \<and> finite_num q"
  by (cases p; cases q) simp_all

lemma finite_square: "finite_num (js_mul p p) \<Longrightarrow> finite_num p"
  by (cases p) simp_all

lemma finite_sub: "finite_num (js_sub p q) \<Longrightarrow> finite_num p \<and> finite_num q"
  by (cases p; cases q) (simp_all add: js_sub_def)

lemma close_finite:
  assumes "js_lt (distance a b) (Fin 150)"
  shows "finite_num (particle.x a) \<and> finite_num (particle.y a)
       \<and> finite_num (particle.x b) \<and> finite_num (particle.y b)"
proof -
  let ?dx = "js_sub (particle.x a) (particle.x b)"
  let ?dy = "js_sub (particle.y a) (particle.y b)"
  from assms have "finite_num (js_add (js_mul ?dx ?dx) (js_mul ?dy ?dy))"
    by (simp add: distance_def Let_def finite_sqrt_lt)
  then have "finite_num (js_mul ?dx ?dx)" and "finite_num (js_mul ?dy ?dy)"
    using finite_add by blast+
  then have "finite_num ?dx" and "finite_num ?dy"
    using finite_square by blast+
  then show ?thesis
    using finite_sub by blast
qed

lemma connection_calls:
  "connection a b = (if js_lt (distance a b) (Fin 150) then line_calls a b else [])"
  by (simp add: connection_def line_calls_def)

lemma concat_map_filter_if:
  "concat (map (\<lambda>q. if P q then f q else []) qs) = concat (map f (filter P qs))"
  by (induction qs) simp_all

lemma drawConnections_calls:
  "drawConnections ps = concat (map (\<lambda>(i, j). line_calls (ps ! i) (ps ! j)) (close_pairs ps))"
proof -
  have "(\<lambda>(i, j). connection (ps ! i) (ps ! j))
      = (\<lambda>q. if (\<lambda>(i, j). js_lt (distance (ps ! i) (ps ! j)) (Fin 150)) q
              then (\<lambda>(i, j). line_calls (ps ! i) (ps ! j)) q else [])"
    by (auto simp: connection_calls fun_eq_iff)
  then show ?thesis
    unfolding drawConnections_def close_pairs_def by (simp only: concat_map_filter_if)
qed

lemma stroked_line_calls:
  assumes "js_lt (distance a b) (Fin 150)"
  shows "stroked (line_calls a b @ ops) br =
           StrokedPath (Rgba 255 255 255 (opacity (distance a b))) 0.5
             [((particle.x a, particle.y a), (particle.x b, particle.y b))]
           # stroked ops (br\<lparr> strokeStyle := Rgba 255 255 255 (opacity (distance a b)),
                               lineWidth := 0.5,
                               position := Some (particle.x b, particle.y b),
                               path := [((particle.x a, particle.y a), (particle.x b, particle.y b))] \<rparr>)"
  using close_finite [OF assms] by (simp add: line_calls_def)

lemma stroked_close_pairs:
  assumes "list_all (\<lambda>(i, j). js_lt (distance (ps ! i) (ps ! j)) (Fin 150)) qs"
  shows "stroked (concat (map (\<lambda>(i, j). line_calls (ps ! i) (ps ! j)) qs)) br =
           map (\<lambda>(i, j). StrokedPath (Rgba 255 255 255 (opacity (distance (ps ! i) (ps ! j)))) 0.5
                  [((particle.x (ps ! i), particle.y (ps ! i)),
                    (particle.x (ps ! j), particle.y (ps ! j)))]) qs"
  using assms
proof (induction qs arbitrary: br)
  case Nil
  show ?case by simp
next
  case (Cons q qs)
  obtain i j where q: "q = (i, j)" by (cases q) auto
  from Cons.prems have near: "js_lt (distance (ps ! i) (ps ! j)) (Fin 150)"
    and rest: "list_all (\<lambda>(i, j). js_lt (distance (ps ! i) (ps ! j)) (Fin 150)) qs"
    by (simp_all add: q)
  show ?case
    by (simp add: q stroked_line_calls [OF near] Cons.IH [OF rest])
qed

lemma stroked_drawConnections:
  "stroked (drawConnections ps) br =
     map (\<lambda>(i, j). StrokedPath (Rgba 255 255 255 (opacity (distance (ps ! i) (ps ! j)))) 0.5
            [((particle.x (ps ! i), particle.y (ps ! i)),
              (particle.x (ps ! j), particle.y (ps ! j)))]) (close_pairs ps)"
  unfolding drawConnections_calls
  by (rule stroked_close_pairs) (simp add: close_pairs_def list_all_iff)

text \<open>
  C6. The connection pass visits every pair \<open>i < j\<close> of particle indices exactly once.
  For a pair whose particles are less than 150 apart it sets the stroke style to white
  with opacity \<open>(1 - distance / 150) * 0.3\<close>, begins a path, moves to the first
  particle, draws a line to the second and strokes; for any other pair it does nothing.
  So the lines stroked by the pass are, in loop order, exactly the segments between the
  pairs less than 150 apart, each stroked with that opacity in force. The opacity is
  strictly decreasing in the distance, is \<open>0.3\<close> at distance 0 and \<open>0\<close> at distance 150.
\<close>

theorem connection_lines:
  "set (pairs (length ps)) = {(i, j). i < j \<and> j < length ps}
   \<and> distinct (pairs (length ps))
   \<and> drawConnections ps = concat (map (\<lambda>(i, j). connection (ps ! i) (ps ! j)) (pairs (length ps)))
   \<and> connection a b =
       (if js_lt (distance a b) (Fin 150)
        then [ StrokeStyle (Rgba 255 255 255 (opacity (distance a b))),
               LineWidth 0.5,
               BeginPath,
               MoveTo (particle.x a) (particle.y a),
               LineTo (particle.x b) (particle.y b),
               Stroke ]
        else [])
   \<and> drawConnections ps =
       concat (map (\<lambda>(i, j).
                 [ StrokeStyle (Rgba 255 255 255 (opacity (distance (ps ! i) (ps ! j)))),
                   LineWidth 0.5,
                   BeginPath,
                   MoveTo (particle.x (ps ! i)) (particle.y (ps ! i)),
                   LineTo (particle.x (ps ! j)) (particle.y (ps ! j)),
                   Stroke ])
               (filter (\<lambda>(i, j). js_lt (distance (ps ! i) (ps ! j)) (Fin 150))
                  (pairs (length ps))))
   \<and> stroked (drawConnections ps) br =
       map (\<lambda>(i, j). StrokedPath (Rgba 255 255 255 (opacity (distance (ps ! i) (ps ! j)))) 0.5
              [((particle.x (ps ! i), particle.y (ps ! i)),
                (particle.x (ps ! j), particle.y (ps ! j)))])
           (filter (\<lambda>(i, j). js_lt (distance (ps ! i) (ps ! j)) (Fin 150))
              (pairs (length ps)))
   \<and> (Stroke \<in> set (connection a b)) = js_lt (distance a b) (Fin 150)
   \<and> (StrokeStyle s \<in> set (connection a b))
       = (js_lt (distance a b) (Fin 150) \<and> s = Rgba 255 255 255 (opacity (distance a b)))
   \<and> distance (a\<lparr> particle.x := Fin ax, particle.y := Fin ay \<rparr>)
              (b\<lparr> particle.x := Fin bx, particle.y := Fin bz \<rparr>)
       = Fin (sqrt ((ax - bx) * (ax - bx) + (ay - bz) * (ay - bz)))
   \<and> opacity (Fin d) = Fin ((1 - d / 150) * 0.3)
   \<and> (d1 < d2) = js_lt (opacity (Fin d2)) (opacity (Fin d1))
   \<and> opacity (Fin 0) = Fin 0.3
   \<and> opacity (Fin 150) = Fin 0"
proof -
  have 1: "(Stroke \<in> set (connection a b)) = js_lt (distance a b) (Fin 150)"
    by (simp add: connection_def)
  have 2: "(StrokeStyle s \<in> set (connection a b))
       = (js_lt (distance a b) (Fin 150) \<and> s = Rgba 255 255 255 (opacity (distance a b)))"
    by (auto simp add: connection_def)
  have 3: "(d1 < d2) = js_lt (opacity (Fin d2)) (opacity (Fin d1))"
    by (simp add: opacity_fin)
  have 4: "opacity (Fin 0) = Fin 0.3" and 5: "opacity (Fin 150) = Fin 0"
    by (simp_all add: opacity_fin)
  note 6 = connection_calls [of a b, unfolded line_calls_def]
  note 7 = drawConnections_calls [of ps, unfolded line_calls_def close_pairs_def]
  note 8 = stroked_drawConnections [of ps br, unfolded close_pairs_def]
  show ?thesis
    by (intro conjI set_pairs distinct_pairs drawConnections_def 1 2 3 4 5 6 7 8
          distance_fin opacity_fin)
qed

section \<open>Creating the particles\<close>












section \<open>Construction without a canvas\<close>

text \<open>
  C8. When the document has no element with the given id, construction returns
  normally with one diagnostic on the console and nothing else done: no frame was
  requested and \<open>animationId\<close> is null, the particle collection is empty, and no
  listener was added.
\<close>

theorem missing_canvas_aborts:
  assumes "getElementById cid = None"
  shows "new_GalaxyBackground getElementById lay rnd cid =
           Inr \<lparr> canvas = None, ctx = None, particles = [], numParticles = 200,
                 mouse = no_pointer, animationId = None, containerId = cid,
                 console = [CanvasNotFound cid], listeners = [],
                 frame_requests = 0, random_calls = 0 \<rparr>"
  using assms by (simp add: new_GalaxyBackground_def init_def)

theorem missing_canvas_aborts_witness:
  "(\<lambda>i. None) ''services-galaxy'' = (None :: canvas_el option)
   \<and> new_GalaxyBackground (\<lambda>i. None) sample_layout (\<lambda>k. 1 / 2) ''services-galaxy'' =
           Inr \<lparr> canvas = None, ctx = None, particles = [], numParticles = 200,
                 mouse = no_pointer, animationId = None, containerId = ''services-galaxy'',
                 console = [CanvasNotFound ''services-galaxy''], listeners = [],
                 frame_requests = 0, random_calls = 0 \<rparr>"
proof -
  have h: "(\<lambda>i. None) ''services-galaxy'' = (None :: canvas_el option)"
    by simp
  from h missing_canvas_aborts [OF h, of sample_layout "\<lambda>k. 1 / 2"] show ?thesis
    by (intro conjI)
qed

section \<open>The throttled listeners\<close>

lemma run_dropped: "inThrottle t \<Longrightarrow> run (throttle f l) (map Invoke bs) t = Inr t"
  by (induction bs) simp_all

lemma run_append:
  "run step (es @ fs) t = (case run step es t of Inl err \<Rightarrow> Inl err | Inr t' \<Rightarrow> run step fs t')"
  by (induction es arbitrary: t) (simp_all split: sum.splits)

lemma throttle_window:
  "run (throttle f l) (Invoke a # map Invoke bs) (idle s) =
     and_then (f a s) (\<lambda>s'. Inr \<lparr> inThrottle = True, timeouts = [l], subject = s' \<rparr>)"
  by (simp add: idle_def and_then_def run_dropped split: sum.splits)

lemma throttle_window_end:
  "run (throttle f l) (Invoke a # map Invoke bs @ [Timeout]) (idle s) =
     and_then (f a s) (\<lambda>s'. Inr (idle s'))"
  using throttle_window [of f l a bs s] run_append [of "throttle f l" "Invoke a # map Invoke bs" "[Timeout]" "idle s"]
  by (simp add: and_then_def idle_def split: sum.splits)

lemma throttle_next_window:
  "run (throttle f l) (Invoke a # map Invoke bs @ [Timeout, Invoke c]) (idle s) =
     and_then (f a s) (\<lambda>s'. throttle f l (Invoke c) (idle s'))"
  using throttle_window_end [of f l a bs s]
    run_append [of "throttle f l" "Invoke a # map Invoke bs @ [Timeout]" "[Invoke c]" "idle s"]
  by (simp add: and_then_def split: sum.splits)

text \<open>
  C3, amended. For the resize listener (250 ms) and the pointer-move listener (16 ms),
  starting with no window open: of the invocations that arrive before the timeout
  callback runs, only the first runs the handler, and the others change nothing. When
  the timeout callback has run, the state is still the one the first invocation left
  and no call is pending; the later inputs of the window are never applied. The next
  invocation then runs the handler with its own input.
\<close>

theorem throttle_keeps_first_call:
  "run (on_resize rnd) (Invoke lay # map Invoke lays) (idle g) =
     and_then (resize_handler rnd lay g) (\<lambda>g'. Inr \<lparr> inThrottle = True, timeouts = [250], subject = g' \<rparr>)
   \<and> run (on_resize rnd) (Invoke lay # map Invoke lays @ [Timeout]) (idle g) =
     and_then (resize_handler rnd lay g) (\<lambda>g'. Inr (idle g'))
   \<and> run (on_resize rnd) (Invoke lay # map Invoke lays @ [Timeout, Invoke lay']) (idle g) =
     and_then (resize_handler rnd lay g) (\<lambda>g'. on_resize rnd (Invoke lay') (idle g'))
   \<and> run on_mousemove (Invoke e # map Invoke es) (idle g) =
     and_then (mousemove_handler e g) (\<lambda>g'. Inr \<lparr> inThrottle = True, timeouts = [16], subject = g' \<rparr>)
   \<and> run on_mousemove (Invoke e # map Invoke es @ [Timeout]) (idle g) =
     and_then (mousemove_handler e g) (\<lambda>g'. Inr (idle g'))
   \<and> run on_mousemove (Invoke e # map Invoke es @ [Timeout, Invoke e']) (idle g) =
     and_then (mousemove_handler e g) (\<lambda>g'. on_mousemove (Invoke e') (idle g'))"
  unfolding on_resize_def on_mousemove_def
  by (intro conjI throttle_window throttle_window_end throttle_next_window)

lemma canvas_sample_galaxy: "canvas sample_galaxy = Some sample_canvas"
  by (simp add: sample_galaxy_def)

text \<open>
  C3, as claimed: after several invocations within one window, the stored state
  reflects the most recent input of that window. It fails: of two pointer moves in one
  window, to \<open>(10, 10)\<close> and then to \<open>(20, 20)\<close>, the pointer stored when the window has
  closed is \<open>(10, 10)\<close>.
\<close>

theorem throttle_loses_latest_input:
  "run on_mousemove [Invoke first_move, Invoke last_move, Timeout] (idle sample_galaxy)
     = Inr (idle (sample_galaxy\<lparr> mouse := pointer_at 10 10 \<rparr>))
   \<and> mousemove_handler last_move sample_galaxy = Inr (sample_galaxy\<lparr> mouse := pointer_at 20 20 \<rparr>)
   \<and> mouse (sample_galaxy\<lparr> mouse := pointer_at 10 10 \<rparr>) \<noteq> pointer_at 20 20"
  by (simp add: on_mousemove_def mousemove_handler_def idle_def first_move_def last_move_def
      canvas_sample_galaxy pointer_at_def js_sub_fin)

end
